theory Spec2Isabelle
  imports Main "HOL-Library.Monad_Syntax"
begin

section \<open>JavaScript values handled by the upload handlers\<close>

text \<open>
  The provider result reaches the handlers as parsed JSON, and the handlers answer with
  object literals. A value is \<open>undefined\<close>, \<open>null\<close>, a boolean, a number, a string, an
  array or a plain object (its own properties, as a list of key and value; a key occurs
  once). Numbers are IEEE doubles in the engine: the type of numbers is a parameter
  \<open>'n\<close>, and what the engine computes on them is taken from a \<open>runtime\<close> record.
\<close>

datatype 'n jv =
    JUndef
  | JNull
  | JBool bool
  | JNum 'n
  | JStr string
  | JArr "'n jv list"
  | JObj "(string \<times> 'n jv) list"

record 'n runtime =
  num_to_string :: "'n \<Rightarrow> string"      \<comment> \<open>Number::toString, radix 10\<close>
  num_truthy :: "'n \<Rightarrow> bool"           \<comment> \<open>ToBoolean: false for +0, -0 and NaN\<close>
  num_gt_zero :: "'n \<Rightarrow> bool"          \<comment> \<open>\<open>n > 0\<close>\<close>
  string_gt_zero :: "string \<Rightarrow> bool"   \<comment> \<open>\<open>StringToNumber(s) > 0\<close>\<close>
  num_zero :: "'n"                      \<comment> \<open>the literal \<open>0\<close>\<close>

text \<open>A thrown \<open>TypeError\<close> is the value \<open>None\<close> of the functions below.\<close>

datatype thrown = TypeError | Error string

definition nullish :: "'n jv \<Rightarrow> bool" where
  "nullish v = (v = JUndef \<or> v = JNull)"

text \<open>ToBoolean.\<close>

fun truthy :: "'n runtime \<Rightarrow> 'n jv \<Rightarrow> bool" where
  "truthy rt JUndef = False"
| "truthy rt JNull = False"
| "truthy rt (JBool b) = b"
| "truthy rt (JNum n) = num_truthy rt n"
| "truthy rt (JStr s) = (s \<noteq> [])"
| "truthy rt (JArr xs) = True"
| "truthy rt (JObj kvs) = True"

text \<open>\<open>a || b\<close> on values.\<close>

definition or_else :: "'n runtime \<Rightarrow> 'n jv \<Rightarrow> 'n jv \<Rightarrow> 'n jv" where
  "or_else rt a b = (if truthy rt a then a else b)"

subsection \<open>Decimal numerals\<close>

definition digit_char :: "nat \<Rightarrow> char" where
  "digit_char d = ''0123456789'' ! d"

function dec_nat :: "nat \<Rightarrow> string" where
  "dec_nat n = (if n < 10 then [digit_char n] else dec_nat (n div 10) @ [digit_char (n mod 10)])"
  by pat_completeness auto
termination
  by (relation "measure id") auto

declare dec_nat.simps [simp del]

subsection \<open>Property reads\<close>

text \<open>
  \<open>member v k\<close> is the value of \<open>v.k\<close> for a value \<open>v\<close> that is neither \<open>undefined\<close> nor
  \<open>null\<close>, for the property names the handlers read (\<open>results\<close>, \<open>channels\<close>,
  \<open>alternatives\<close>, \<open>paragraphs\<close>, \<open>speaker\<close>, \<open>sentences\<close>, \<open>text\<close>, \<open>transcript\<close>,
  \<open>summaries\<close>, \<open>summary\<close>, \<open>metadata\<close>, \<open>duration\<close>, \<open>model_info\<close>, \<open>name\<close>, and the
  fields of the handlers' own object literals): none of them is a property of a
  primitive, of an array or of a prototype, so only a plain object can hold them.
\<close>

fun member :: "'n jv \<Rightarrow> string \<Rightarrow> 'n jv" where
  "member (JObj kvs) k = (case map_of kvs k of Some x \<Rightarrow> x | None \<Rightarrow> JUndef)"
| "member v k = JUndef"

text \<open>\<open>v[i]\<close> for a value that is neither \<open>undefined\<close> nor \<open>null\<close>.\<close>

fun index :: "'n jv \<Rightarrow> nat \<Rightarrow> 'n jv" where
  "index (JArr xs) i = (if i < length xs then xs ! i else JUndef)"
| "index (JStr s) i = (if i < length s then JStr [s ! i] else JUndef)"
| "index (JObj kvs) i = (case map_of kvs (dec_nat i) of Some x \<Rightarrow> x | None \<Rightarrow> JUndef)"
| "index v i = JUndef"

text \<open>\<open>v.k\<close> and \<open>v[i]\<close>: reading a property of \<open>undefined\<close> or \<open>null\<close> throws.\<close>

definition get_prop :: "'n jv \<Rightarrow> string \<Rightarrow> 'n jv option" where
  "get_prop v k = (if nullish v then None else Some (member v k))"

definition get_index :: "'n jv \<Rightarrow> nat \<Rightarrow> 'n jv option" where
  "get_index v i = (if nullish v then None else Some (index v i))"

text \<open>Optional chaining, \<open>v?.k\<close> and \<open>v?.[i]\<close>.\<close>

definition opt_prop :: "'n jv \<Rightarrow> string \<Rightarrow> 'n jv" where
  "opt_prop v k = (if nullish v then JUndef else member v k)"

definition opt_index :: "'n jv \<Rightarrow> nat \<Rightarrow> 'n jv" where
  "opt_index v i = (if nullish v then JUndef else index v i)"

subsection \<open>ToString and Array.prototype.join\<close>

fun join_strings :: "string \<Rightarrow> string list \<Rightarrow> string" where
  "join_strings sep [] = []"
| "join_strings sep [s] = s"
| "join_strings sep (s # t # ss) = s @ sep @ join_strings sep (t # ss)"

text \<open>
  ToString of a value, as a template literal applies it. An array is its elements joined
  by a comma, \<open>undefined\<close> and \<open>null\<close> elements giving the empty string. A plain object is
  \<open>[object Object]\<close>, unless it has an own property \<open>toString\<close>: a parsed value is not
  callable and \<open>Object.prototype.valueOf\<close> returns the object, so no primitive is found
  and ToPrimitive throws.
\<close>

fun to_str :: "'n runtime \<Rightarrow> 'n jv \<Rightarrow> string option" where
  "to_str rt JUndef = Some ''undefined''"
| "to_str rt JNull = Some ''null''"
| "to_str rt (JBool b) = Some (if b then ''true'' else ''false'')"
| "to_str rt (JNum n) = Some (num_to_string rt n)"
| "to_str rt (JStr s) = Some s"
| "to_str rt (JArr xs) =
     map_option (join_strings '','')
       (those (map (\<lambda>x. if x = JUndef \<or> x = JNull then Some [] else to_str rt x) xs))"
| "to_str rt (JObj kvs) =
     (if map_of kvs ''toString'' = None then Some ''[object Object]'' else None)"

text \<open>\<open>xs.join(sep)\<close> on an array with the elements \<open>xs\<close>.\<close>

definition js_join :: "'n runtime \<Rightarrow> string \<Rightarrow> 'n jv list \<Rightarrow> string option" where
  "js_join rt sep xs =
     map_option (join_strings sep)
       (those (map (\<lambda>x. if nullish x then Some [] else to_str rt x) xs))"

text \<open>
  \<open>v > 0\<close>: ToPrimitive, then ToNumber. An array or object goes through its string.
\<close>

fun gt_zero :: "'n runtime \<Rightarrow> 'n jv \<Rightarrow> bool option" where
  "gt_zero rt JUndef = Some False"
| "gt_zero rt JNull = Some False"
| "gt_zero rt (JBool b) = Some b"
| "gt_zero rt (JNum n) = Some (num_gt_zero rt n)"
| "gt_zero rt (JStr s) = Some (string_gt_zero rt s)"
| "gt_zero rt v = map_option (string_gt_zero rt) (to_str rt v)"

text \<open>\<open>v.length > 0\<close> for a value that is neither \<open>undefined\<close> nor \<open>null\<close>.\<close>

fun length_gt_zero :: "'n runtime \<Rightarrow> 'n jv \<Rightarrow> bool option" where
  "length_gt_zero rt (JArr xs) = Some (xs \<noteq> [])"
| "length_gt_zero rt (JStr s) = Some (s \<noteq> [])"
| "length_gt_zero rt (JObj kvs) = gt_zero rt (member (JObj kvs) ''length'')"
| "length_gt_zero rt v = Some False"

text \<open>
  \<open>v.map(f)\<close>: only an array has the method; on any other value the call throws
  (\<open>v.map\<close> is \<open>undefined\<close>, or an own property that is not callable).
\<close>

fun array_map :: "('n jv \<Rightarrow> 'n jv option) \<Rightarrow> 'n jv \<Rightarrow> 'n jv list option" where
  "array_map f (JArr xs) = those (map f xs)"
| "array_map f v = None"

section \<open>The upload handler of \<open>api/index.js\<close>\<close>

text \<open>\<open>result.results.channels[0].alternatives[0]\<close>\<close>

definition first_alternative :: "'n jv \<Rightarrow> 'n jv option" where
  "first_alternative result = do {
     results \<leftarrow> get_prop result ''results'';
     channels \<leftarrow> get_prop results ''channels'';
     channel \<leftarrow> get_index channels 0;
     alternatives \<leftarrow> get_prop channel ''alternatives'';
     get_index alternatives 0
   }"

text \<open>\<open>const paragraphs = result.results.channels[0].alternatives[0].paragraphs?.paragraphs || [];\<close>\<close>

definition paragraphs_of :: "'n runtime \<Rightarrow> 'n jv \<Rightarrow> 'n jv option" where
  "paragraphs_of rt result = do {
     alternative \<leftarrow> first_alternative result;
     p \<leftarrow> get_prop alternative ''paragraphs'';
     Some (or_else rt (opt_prop p ''paragraphs'') (JArr []))
   }"

text \<open>
  \<open>p => ({ speaker: `Speaker ${p.speaker}`, text: p.sentences.map(s => s.text).join(' ') })\<close>
\<close>

definition utterance_of :: "'n runtime \<Rightarrow> 'n jv \<Rightarrow> 'n jv option" where
  "utterance_of rt p = do {
     speaker \<leftarrow> get_prop p ''speaker'';
     label \<leftarrow> to_str rt speaker;
     sentences \<leftarrow> get_prop p ''sentences'';
     texts \<leftarrow> array_map (\<lambda>s. get_prop s ''text'') sentences;
     text \<leftarrow> js_join rt '' '' texts;
     Some (JObj [(''speaker'', JStr (''Speaker '' @ label)), (''text'', JStr text)])
   }"

text \<open>
  The utterances: the mapped paragraphs when \<open>paragraphs.length > 0\<close>, and otherwise the
  single utterance made of
  \<open>result.results.channels[0].alternatives[0].transcript\<close>.
\<close>

definition utterances_of :: "'n runtime \<Rightarrow> 'n jv \<Rightarrow> 'n jv list option" where
  "utterances_of rt result = do {
     paragraphs \<leftarrow> paragraphs_of rt result;
     nonempty \<leftarrow> length_gt_zero rt paragraphs;
     if nonempty then array_map (utterance_of rt) paragraphs
     else do {
       alternative \<leftarrow> first_alternative result;
       transcript \<leftarrow> get_prop alternative ''transcript'';
       Some [JObj [(''speaker'', JStr ''Speaker''), (''text'', transcript)]]
     }
   }"

text \<open>\<open>u => `[${u.speaker}]: ${u.text}`\<close>\<close>

definition format_utterance :: "'n runtime \<Rightarrow> 'n jv \<Rightarrow> 'n jv option" where
  "format_utterance rt u = do {
     speaker \<leftarrow> get_prop u ''speaker'';
     s \<leftarrow> to_str rt speaker;
     text \<leftarrow> get_prop u ''text'';
     t \<leftarrow> to_str rt text;
     Some (JStr (''['' @ s @ '']: '' @ t))
   }"

definition blank_line :: string where
  "blank_line = [CHR 0x0A, CHR 0x0A]"

text \<open>\<open>utterances.map(u => `[${u.speaker}]: ${u.text}`).join('\n\n')\<close>\<close>

definition fullTranscript :: "'n runtime \<Rightarrow> 'n jv list \<Rightarrow> string option" where
  "fullTranscript rt utterances = do {
     lines \<leftarrow> those (map (format_utterance rt) utterances);
     js_join rt blank_line lines
   }"

text \<open>
  Lines 33 to 52 of the handler: from the provider result to \<open>transcriptionData\<close>.
  \<open>now\<close> is the reading of \<open>Date.now()\<close> (milliseconds, an integer), \<open>stamp\<close> the string
  \<open>new Date().toISOString()\<close>, \<open>fileName\<close> is \<open>req.file.originalname\<close>.
\<close>

definition normalize_api :: "'n runtime \<Rightarrow> nat \<Rightarrow> string \<Rightarrow> string \<Rightarrow> 'n jv \<Rightarrow> 'n jv option" where
  "normalize_api rt now stamp fileName result = do {
     utterances \<leftarrow> utterances_of rt result;
     transcript \<leftarrow> fullTranscript rt utterances;
     alternatives \<leftarrow> first_alternative result;
     summaries \<leftarrow> get_prop alternatives ''summaries'';
     metadata \<leftarrow> get_prop result ''metadata'';
     Some (JObj
       [(''id'', JStr (dec_nat now)),
        (''fileName'', JStr fileName),
        (''transcript'', JStr transcript),
        (''utterances'', JArr utterances),
        (''summary'',
           or_else rt (opt_prop (opt_index summaries 0) ''summary'') (JStr ''Summary not available.'')),
        (''bullets'', JStr ''Key insights are included in the summary above.''),
        (''metadata'', JObj
           [(''duration'', or_else rt (opt_prop metadata ''duration'') (JNum (num_zero rt))),
            (''model'', or_else rt (opt_prop (opt_prop metadata ''model_info'') ''name'') (JStr ''nova-2'')),
            (''processedAt'', JStr stamp)])])
   }"

text \<open>
  What the provider call gives: the promise is rejected, or it resolves to the pair
  \<open>{ result, error }\<close>.
\<close>

datatype 'n outcome = Rejected thrown | Resolved "'n jv" "'n jv"

text \<open>
  A response: \<open>res.json(body)\<close>, or \<open>res.status(code).send({ message, error })\<close> with the
  error that was caught (none for status 400).
\<close>

datatype 'n response = Json "'n jv" | Send nat string "thrown option"

text \<open>\<open>throw new Error(`Deepgram Error: ${error.message}`)\<close>: what is thrown.\<close>

definition deepgram_error :: "'n runtime \<Rightarrow> 'n jv \<Rightarrow> thrown" where
  "deepgram_error rt error =
     (case do { m \<leftarrow> get_prop error ''message''; to_str rt m } of
        None \<Rightarrow> TypeError
      | Some m \<Rightarrow> Error (''Deepgram Error: '' @ m))"

text \<open>The handler; \<open>req_file\<close> is \<open>req.file\<close>, given by its \<open>originalname\<close>.\<close>

definition api_upload ::
  "'n runtime \<Rightarrow> nat \<Rightarrow> string \<Rightarrow> string option \<Rightarrow> 'n outcome \<Rightarrow> 'n response" where
  "api_upload rt now stamp req_file provider =
     (case req_file of
        None \<Rightarrow> Send 400 ''No file uploaded'' None
      | Some originalname \<Rightarrow>
          (case provider of
             Rejected e \<Rightarrow> Send 500 ''Error processing audio'' (Some e)
           | Resolved result error \<Rightarrow>
               if truthy rt error
               then Send 500 ''Error processing audio'' (Some (deepgram_error rt error))
               else (case normalize_api rt now stamp originalname result of
                       None \<Rightarrow> Send 500 ''Error processing audio'' (Some TypeError)
                     | Some transcriptionData \<Rightarrow> Json transcriptionData)))"

section \<open>The upload handler of \<open>server/server.js\<close>\<close>

text \<open>
  Lines 69 to 100: the same utterances and transcript, another text for a missing
  summary, and a body of four fields. Reading and deleting the uploaded file is left
  out: both calls are taken to succeed.
\<close>

definition normalize_server :: "'n runtime \<Rightarrow> 'n jv \<Rightarrow> 'n jv option" where
  "normalize_server rt result = do {
     utterances \<leftarrow> utterances_of rt result;
     transcript \<leftarrow> fullTranscript rt utterances;
     alternative \<leftarrow> first_alternative result;
     summaries \<leftarrow> get_prop alternative ''summaries'';
     Some (JObj
       [(''transcript'', JStr transcript),
        (''utterances'', JArr utterances),
        (''summary'',
           or_else rt (opt_prop (opt_index summaries 0) ''summary'')
             (JStr ''Summary not available for this audio length or quality.'')),
        (''bullets'', JStr
           ''Key insights are included in the summary above. Speaker labeling is active in the full transcript.'')])
   }"

definition server_upload :: "'n runtime \<Rightarrow> string option \<Rightarrow> 'n outcome \<Rightarrow> 'n response" where
  "server_upload rt req_file provider =
     (case req_file of
        None \<Rightarrow> Send 400 ''No file uploaded'' None
      | Some originalname \<Rightarrow>
          (case provider of
             Rejected e \<Rightarrow> Send 500 ''Error processing audio'' (Some e)
           | Resolved result error \<Rightarrow>
               if truthy rt error
               then Send 500 ''Error processing audio'' (Some (deepgram_error rt error))
               else (case normalize_server rt result of
                       None \<Rightarrow> Send 500 ''Error processing audio'' (Some TypeError)
                     | Some body \<Rightarrow> Json body)))"

text \<open>
  \<open>JSON.stringify\<close> writes the own properties of an object whose value is not
  \<open>undefined\<close>: the field names a consumer of the response finds.
\<close>

definition json_keys :: "'n jv \<Rightarrow> string list" where
  "json_keys v = (case v of JObj kvs \<Rightarrow> map fst (filter (\<lambda>(k, x). x \<noteq> JUndef) kvs) | _ \<Rightarrow> [])"

section \<open>The history of the interface\<close>

text \<open>\<open>xs.slice(0, n)\<close>\<close>

definition slice0 :: "nat \<Rightarrow> 'a list \<Rightarrow> 'a list" where
  "slice0 n xs = take n xs"

text \<open>
  \<open>{ ...data }\<close>: the own enumerable properties of the spread value. An array and a
  string spread their indices; a number, a boolean, \<open>null\<close> and \<open>undefined\<close> nothing.
\<close>

fun spread :: "'n jv \<Rightarrow> (string \<times> 'n jv) list" where
  "spread (JObj kvs) = kvs"
| "spread (JArr xs) = map (\<lambda>i. (dec_nat i, xs ! i)) [0 ..< length xs]"
| "spread (JStr s) = map (\<lambda>i. (dec_nat i, JStr [s ! i])) [0 ..< length s]"
| "spread v = []"

text \<open>A later property of an object literal replaces an earlier one of the same name.\<close>

fun set_property :: "string \<Rightarrow> 'n jv \<Rightarrow> (string \<times> 'n jv) list \<Rightarrow> (string \<times> 'n jv) list" where
  "set_property k v [] = [(k, v)]"
| "set_property k v ((k', v') # kvs) =
     (if k = k' then (k, v) # kvs else (k', v') # set_property k v kvs)"

text \<open>
  The state of the second interface variant that \<open>handleUpload\<close> reads and writes
  (the upload progress, written by the progress events of the request, is left out).
\<close>

record 'n ui_state =
  chosen_file :: "string option" \<comment> \<open>the chosen file, by its \<open>name\<close>\<close>
  loading :: bool
  error :: "'n jv"
  result :: "'n jv"
  history :: "'n jv list"
  activeTab :: string

text \<open>What \<open>axios.post\<close> gives: a response with its data, or an error with or without a response.\<close>

datatype 'n posted = Response "'n jv" | Failed_response "'n jv" | No_response

text \<open>\<open>{ ...response.data, id: Date.now().toString(), fileName: file.name }\<close>\<close>

definition newResult :: "nat \<Rightarrow> string \<Rightarrow> 'n jv \<Rightarrow> 'n jv" where
  "newResult now name data =
     JObj (set_property ''fileName'' (JStr name)
            (set_property ''id'' (JStr (dec_nat now)) (spread data)))"

text \<open>\<open>prev => [newResult, ...prev].slice(0, 20)\<close>\<close>

definition push_history :: "'n jv \<Rightarrow> 'n jv list \<Rightarrow> 'n jv list" where
  "push_history r prev = slice0 20 (r # prev)"

definition handleUpload :: "'n runtime \<Rightarrow> nat \<Rightarrow> 'n posted \<Rightarrow> 'n ui_state \<Rightarrow> 'n ui_state" where
  "handleUpload rt now post st =
     (case chosen_file st of
        None \<Rightarrow> st
      | Some name \<Rightarrow>
          (case post of
             Response data \<Rightarrow>
               st\<lparr>error := JNull,
                  result := newResult now name data,
                  history := push_history (newResult now name data) (history st),
                  activeTab := ''summary'',
                  loading := False\<rparr>
           | No_response \<Rightarrow>
               st\<lparr>error := JStr ''Connection Error: Is the local backend running?'',
                  loading := False\<rparr>
           | Failed_response data \<Rightarrow>
               st\<lparr>error := or_else rt (opt_prop data ''message'') (JStr ''Error processing file.''),
                  loading := False\<rparr>))"

section \<open>A runtime for evaluation\<close>

text \<open>
  An engine whose numbers are the integers, to evaluate the handlers on payloads.
  Its comparison of a string with zero is exact on unsigned decimal numerals.
\<close>

definition dec_int :: "int \<Rightarrow> string" where
  "dec_int i = (if i < 0 then CHR ''-'' # dec_nat (nat (- i)) else dec_nat (nat i))"

definition numeral_gt_zero :: "string \<Rightarrow> bool" where
  "numeral_gt_zero s =
     (s \<noteq> [] \<and> list_all (\<lambda>c. c \<in> set ''0123456789'') s \<and> list_ex (\<lambda>c. c \<noteq> CHR ''0'') s)"

definition int_runtime :: "int runtime" where
  "int_runtime =
     \<lparr>num_to_string = dec_int,
      num_truthy = (\<lambda>n. n \<noteq> 0),
      num_gt_zero = (\<lambda>n. 0 < n),
      string_gt_zero = numeral_gt_zero,
      num_zero = 0\<rparr>"

section \<open>Paths of the provider result, as the specification names them\<close>

text \<open>
  The value found at \<open>results.channels[0].alternatives[0]\<close> of a payload, \<open>undefined\<close>
  when a step of the path is absent.
\<close>

definition alternative0 :: "'n jv \<Rightarrow> 'n jv" where
  "alternative0 raw =
     index (member (index (member (member raw ''results'') ''channels'') 0) ''alternatives'') 0"

text \<open>The values at \<open>paragraphs.paragraphs\<close> and at \<open>summaries[0].summary\<close> of an alternative.\<close>

definition paragraph_sequence :: "'n jv \<Rightarrow> 'n jv" where
  "paragraph_sequence a = member (member a ''paragraphs'') ''paragraphs''"

definition summary_value :: "'n jv \<Rightarrow> 'n jv" where
  "summary_value a = member (index (member a ''summaries'') 0) ''summary''"

text \<open>The value at the top-level \<open>metadata.duration\<close> of a payload.\<close>

definition duration_value :: "'n jv \<Rightarrow> 'n jv" where
  "duration_value raw = member (member raw ''metadata'') ''duration''"

text \<open>
  The fields of a record that do not come from the clock: everything but \<open>id\<close> and
  \<open>metadata.processedAt\<close>.
\<close>

definition clock_free_fields :: "'n jv \<Rightarrow> 'n jv list" where
  "clock_free_fields d =
     [member d ''fileName'', member d ''transcript'', member d ''utterances'',
      member d ''summary'', member d ''bullets'',
      member (member d ''metadata'') ''duration'', member (member d ''metadata'') ''model'']"

section \<open>The utterances and the transcript, as the specification words them\<close>

text \<open>
  The data model of the provider result: a paragraph holds a speaker identifier (a number
  or a string) and a sequence of sentences, and a sentence holds a text.
\<close>

fun is_text :: "'n jv \<Rightarrow> bool" where
  "is_text (JStr s) = True"
| "is_text v = False"

text \<open>A value that is not an object, and neither \<open>undefined\<close> nor \<open>null\<close>.\<close>

fun is_primitive :: "'n jv \<Rightarrow> bool" where
  "is_primitive (JBool b) = True"
| "is_primitive (JNum n) = True"
| "is_primitive (JStr s) = True"
| "is_primitive v = False"

fun is_speaker_id :: "'n jv \<Rightarrow> bool" where
  "is_speaker_id (JNum n) = True"
| "is_speaker_id (JStr s) = True"
| "is_speaker_id v = False"

definition sentence_shape :: "'n jv \<Rightarrow> bool" where
  "sentence_shape s = is_text (member s ''text'')"

definition paragraph_shape :: "'n jv \<Rightarrow> bool" where
  "paragraph_shape p =
     (is_speaker_id (member p ''speaker'') \<and>
      (case member p ''sentences'' of JArr ss \<Rightarrow> list_all sentence_shape ss | _ \<Rightarrow> False))"

fun text_of :: "'n jv \<Rightarrow> string" where
  "text_of (JStr s) = s"
| "text_of v = []"

fun speaker_text :: "'n runtime \<Rightarrow> 'n jv \<Rightarrow> string" where
  "speaker_text rt (JNum n) = num_to_string rt n"
| "speaker_text rt (JStr s) = s"
| "speaker_text rt v = []"

definition sentences_of :: "'n jv \<Rightarrow> 'n jv list" where
  "sentences_of p = (case member p ''sentences'' of JArr ss \<Rightarrow> ss | _ \<Rightarrow> [])"

text \<open>
  The utterance of a paragraph: the speaker is \<open>Speaker\<close>, a space and the paragraph's
  speaker; the text is the texts of the paragraph's sentences, in order, with a single
  space between two of them.
\<close>

definition spec_utterance :: "'n runtime \<Rightarrow> 'n jv \<Rightarrow> 'n jv" where
  "spec_utterance rt p =
     JObj [(''speaker'', JStr (''Speaker '' @ speaker_text rt (member p ''speaker''))),
           (''text'', JStr (join_strings '' '' (map (\<lambda>s. text_of (member s ''text'')) (sentences_of p))))]"

text \<open>
  The transcript of a list of utterances: each one as \<open>[speaker]: text\<close>, a blank line
  (two line feeds) between two of them.
\<close>

definition spec_line :: "'n runtime \<Rightarrow> 'n jv \<Rightarrow> string option" where
  "spec_line rt u =
     (case (to_str rt (member u ''speaker''), to_str rt (member u ''text'')) of
        (Some s, Some t) \<Rightarrow> Some (''['' @ s @ '']: '' @ t)
      | _ \<Rightarrow> None)"

fun spec_transcript :: "'n runtime \<Rightarrow> 'n jv list \<Rightarrow> string option" where
  "spec_transcript rt [] = Some []"
| "spec_transcript rt [u] = spec_line rt u"
| "spec_transcript rt (u # v # us) =
     (case (spec_line rt u, spec_transcript rt (v # us)) of
        (Some l, Some r) \<Rightarrow> Some (l @ [CHR 0x0A, CHR 0x0A] @ r)
      | _ \<Rightarrow> None)"

section \<open>Payloads for evaluation\<close>

definition payload_of :: "int jv \<Rightarrow> int jv" where
  "payload_of a =
     JObj [(''results'', JObj [(''channels'', JArr [JObj [(''alternatives'', JArr [a])]])])]"

text \<open>The first scenario of the specification: one paragraph of two sentences.\<close>

definition scenario1_paragraph :: "int jv" where
  "scenario1_paragraph =
     JObj [(''speaker'', JNum 0),
           (''sentences'', JArr [JObj [(''text'', JStr ''hello'')], JObj [(''text'', JStr ''world'')]])]"

definition scenario1 :: "int jv" where
  "scenario1 =
     payload_of (JObj [(''transcript'', JStr ''hello world''),
                       (''paragraphs'', JObj [(''paragraphs'', JArr [scenario1_paragraph])])])"

text \<open>
  What the two handlers make of it, at the clock reading 17, the time stamp \<open>t\<close> and the
  file name \<open>a.mp3\<close>.
\<close>

definition scenario1_record :: "int jv" where
  "scenario1_record =
     JObj [(''id'', JStr ''17''), (''fileName'', JStr ''a.mp3''),
           (''transcript'', JStr ''[Speaker 0]: hello world''),
           (''utterances'', JArr [JObj [(''speaker'', JStr ''Speaker 0''), (''text'', JStr ''hello world'')]]),
           (''summary'', JStr ''Summary not available.''),
           (''bullets'', JStr ''Key insights are included in the summary above.''),
           (''metadata'', JObj [(''duration'', JNum 0), (''model'', JStr ''nova-2''),
                                (''processedAt'', JStr ''t'')])]"

definition scenario1_body :: "int jv" where
  "scenario1_body =
     JObj [(''transcript'', JStr ''[Speaker 0]: hello world''),
           (''utterances'', JArr [JObj [(''speaker'', JStr ''Speaker 0''), (''text'', JStr ''hello world'')]]),
           (''summary'', JStr ''Summary not available for this audio length or quality.''),
           (''bullets'', JStr
              ''Key insights are included in the summary above. Speaker labeling is active in the full transcript.'')]"

text \<open>
  The record of \<open>api/index.js\<close> for a payload without paragraphs, at the time stamp \<open>t\<close>:
  \<open>t\<close> is the transcript field, \<open>s\<close> the summary and \<open>d\<close> the duration of the record.
\<close>

definition fallback_record :: "string \<Rightarrow> string \<Rightarrow> int jv \<Rightarrow> int jv \<Rightarrow> int jv \<Rightarrow> int jv" where
  "fallback_record ident fileName t s d =
     JObj [(''id'', JStr ident), (''fileName'', JStr fileName),
           (''transcript'', JStr (''[Speaker]: '' @ (case t of JStr x \<Rightarrow> x | _ \<Rightarrow> ''undefined''))),
           (''utterances'', JArr [JObj [(''speaker'', JStr ''Speaker''), (''text'', t)]]),
           (''summary'', s),
           (''bullets'', JStr ''Key insights are included in the summary above.''),
           (''metadata'', JObj [(''duration'', d), (''model'', JStr ''nova-2''),
                                (''processedAt'', JStr ''t'')])]"

text \<open>A payload of two paragraphs, and what the two handlers make of it.\<close>

definition dialogue :: "int jv" where
  "dialogue =
     payload_of (JObj [(''transcript'', JStr ''hello hi there''),
       (''paragraphs'', JObj [(''paragraphs'', JArr
          [JObj [(''speaker'', JNum 0), (''sentences'', JArr [JObj [(''text'', JStr ''hello'')]])],
           JObj [(''speaker'', JNum 1),
                 (''sentences'', JArr [JObj [(''text'', JStr ''hi'')], JObj [(''text'', JStr ''there'')]])]])])])"

definition dialogue_record :: "int jv" where
  "dialogue_record =
     JObj [(''id'', JStr ''17''), (''fileName'', JStr ''a.mp3''),
           (''transcript'', JStr (''[Speaker 0]: hello'' @ [CHR 0x0A, CHR 0x0A] @ ''[Speaker 1]: hi there'')),
           (''utterances'', JArr [JObj [(''speaker'', JStr ''Speaker 0''), (''text'', JStr ''hello'')],
                                  JObj [(''speaker'', JStr ''Speaker 1''), (''text'', JStr ''hi there'')]]),
           (''summary'', JStr ''Summary not available.''),
           (''bullets'', JStr ''Key insights are included in the summary above.''),
           (''metadata'', JObj [(''duration'', JNum 0), (''model'', JStr ''nova-2''),
                                (''processedAt'', JStr ''t'')])]"

definition dialogue_body :: "int jv" where
  "dialogue_body =
     JObj [(''transcript'', JStr (''[Speaker 0]: hello'' @ [CHR 0x0A, CHR 0x0A] @ ''[Speaker 1]: hi there'')),
           (''utterances'', JArr [JObj [(''speaker'', JStr ''Speaker 0''), (''text'', JStr ''hello'')],
                                  JObj [(''speaker'', JStr ''Speaker 1''), (''text'', JStr ''hi there'')]]),
           (''summary'', JStr ''Summary not available for this audio length or quality.''),
           (''bullets'', JStr
              ''Key insights are included in the summary above. Speaker labeling is active in the full transcript.'')]"

text \<open>The fourth scenario: a payload with a summary.\<close>

definition scenario4 :: "int jv" where
  "scenario4 =
     payload_of (JObj [(''transcript'', JStr ''hi''),
                       (''summaries'', JArr [JObj [(''summary'', JStr ''Meeting covered budget.'')]])])"

definition scenario4_body :: "int jv" where
  "scenario4_body =
     JObj [(''transcript'', JStr ''[Speaker]: hi''),
           (''utterances'', JArr [JObj [(''speaker'', JStr ''Speaker''), (''text'', JStr ''hi'')]]),
           (''summary'', JStr ''Meeting covered budget.''),
           (''bullets'', JStr
              ''Key insights are included in the summary above. Speaker labeling is active in the full transcript.'')]"

text \<open>A payload with the top-level \<open>metadata.duration\<close> \<open>d\<close>.\<close>

definition payload_lasting :: "int jv \<Rightarrow> int jv" where
  "payload_lasting d =
     JObj [(''results'', JObj [(''channels'', JArr [JObj [(''alternatives'',
              JArr [JObj [(''transcript'', JStr ''hi'')]])]])]),
           (''metadata'', JObj [(''duration'', d)])]"

section \<open>Properties\<close>

subsection \<open>Reading the payload\<close>

lemma member_nullish: "nullish v \<Longrightarrow> member v k = JUndef"
  by (auto simp: nullish_def)

lemma index_nullish: "nullish v \<Longrightarrow> index v i = JUndef"
  by (auto simp: nullish_def)

lemma opt_prop_member: "opt_prop v k = member v k"
  by (simp add: opt_prop_def member_nullish)

lemma opt_index_index: "opt_index v i = index v i"
  by (simp add: opt_index_def index_nullish)

lemma first_alternative_Some: "first_alternative raw = Some a \<Longrightarrow> a = alternative0 raw"
  by (auto simp: first_alternative_def alternative0_def get_prop_def get_index_def
      split: Option.bind_splits if_splits)

lemma first_alternative_None: "first_alternative raw = None \<Longrightarrow> alternative0 raw = JUndef"
  by (auto simp: first_alternative_def alternative0_def get_prop_def get_index_def member_nullish index_nullish
      split: Option.bind_splits if_splits)

lemma first_alternative_present:
  "\<not> nullish (alternative0 raw) \<Longrightarrow> first_alternative raw = Some (alternative0 raw)"
  using first_alternative_None [of raw] first_alternative_Some [of raw]
  by (cases "first_alternative raw") (auto simp: nullish_def)

lemma alternative0_raw: "\<not> nullish (alternative0 raw) \<Longrightarrow> \<not> nullish raw"
  by (auto simp: alternative0_def nullish_def)

lemma paragraphs_of_absent: "nullish (alternative0 raw) \<Longrightarrow> paragraphs_of rt raw = None"
  using first_alternative_Some [of raw]
  by (cases "first_alternative raw") (auto simp: paragraphs_of_def get_prop_def)

lemma utterances_of_absent: "nullish (alternative0 raw) \<Longrightarrow> utterances_of rt raw = None"
  by (simp add: utterances_of_def paragraphs_of_absent)

lemma utterances_of_present: "utterances_of rt raw = Some us \<Longrightarrow> \<not> nullish (alternative0 raw)"
  using utterances_of_absent [of raw rt] by auto

lemma paragraphs_of_present:
  "\<not> nullish (alternative0 raw) \<Longrightarrow>
   paragraphs_of rt raw = Some (or_else rt (paragraph_sequence (alternative0 raw)) (JArr []))"
  by (simp add: paragraphs_of_def first_alternative_present get_prop_def opt_prop_def
      paragraph_sequence_def member_nullish)

subsection \<open>Lists of results and joined strings\<close>

lemma those_map_Some: "(\<And>x. x \<in> set xs \<Longrightarrow> f x = Some (g x)) \<Longrightarrow> those (map f xs) = Some (map g xs)"
  by (induction xs) auto

lemma those_Some_elem:
  "those xs = Some ys \<Longrightarrow> y \<in> set ys \<Longrightarrow> Some y \<in> set xs"
  by (induction xs arbitrary: ys) (auto split: option.splits)

lemma those_map_elem:
  "those (map f xs) = Some ys \<Longrightarrow> y \<in> set ys \<Longrightarrow> \<exists>x. f x = Some y"
  by (drule (1) those_Some_elem) auto

lemma those_map_option: "those (map (\<lambda>x. map_option g (f x)) xs) = map_option (map g) (those (map f xs))"
  by (induction xs) (auto split: option.splits simp: option.map_comp comp_def)

lemma js_join_texts:
  assumes "list_all is_text xs"
  shows "js_join rt sep xs = Some (join_strings sep (map text_of xs))"
proof -
  have "those (map (\<lambda>x. if nullish x then Some [] else to_str rt x) xs) = Some (map text_of xs)"
  proof (rule those_map_Some)
    fix x assume "x \<in> set xs"
    with assms have "is_text x" by (simp add: list_all_iff)
    then show "(if nullish x then Some [] else to_str rt x) = Some (text_of x)"
      by (cases x) (auto simp: nullish_def)
  qed
  then show ?thesis by (simp add: js_join_def)
qed

lemma js_join_strings: "js_join rt sep (map JStr ls) = Some (join_strings sep ls)"
  by (simp add: js_join_texts list_all_iff comp_def)

subsection \<open>Utterances\<close>

lemma is_text_member: "is_text (member v k) \<Longrightarrow> \<not> nullish v"
  by (cases v) (auto simp: nullish_def)

lemma is_speaker_id_member: "is_speaker_id (member v k) \<Longrightarrow> \<not> nullish v"
  by (cases v) (auto simp: nullish_def)

lemma to_str_speaker_id: "is_speaker_id v \<Longrightarrow> to_str rt v = Some (speaker_text rt v)"
  by (cases v) auto

lemma utterance_of_shape:
  assumes "paragraph_shape p"
  shows "utterance_of rt p = Some (spec_utterance rt p)"
proof -
  from assms obtain ss where ss: "member p ''sentences'' = JArr ss" "list_all sentence_shape ss"
    and sp: "is_speaker_id (member p ''speaker'')"
    by (auto simp: paragraph_shape_def split: jv.splits)
  from sp have p: "\<not> nullish p" by (rule is_speaker_id_member)
  have texts: "those (map (\<lambda>s. get_prop s ''text'') ss) = Some (map (\<lambda>s. member s ''text'') ss)"
  proof (rule those_map_Some)
    fix s assume "s \<in> set ss"
    with ss(2) have "is_text (member s ''text'')" by (simp add: list_all_iff sentence_shape_def)
    then show "get_prop s ''text'' = Some (member s ''text'')"
      by (simp add: get_prop_def is_text_member)
  qed
  have "list_all is_text (map (\<lambda>s. member s ''text'') ss)"
    using ss(2) by (simp add: list_all_iff sentence_shape_def)
  then have joined: "js_join rt '' '' (map (\<lambda>s. member s ''text'') ss)
      = Some (join_strings '' '' (map text_of (map (\<lambda>s. member s ''text'') ss)))"
    by (rule js_join_texts)
  show ?thesis
    using p ss(1) texts joined to_str_speaker_id [OF sp, of rt]
    by (simp add: utterance_of_def spec_utterance_def get_prop_def sentences_of_def comp_def)
qed

lemma utterances_of_paragraphs:
  assumes "paragraph_sequence (alternative0 raw) = JArr ps" and "ps \<noteq> []"
    and "list_all paragraph_shape ps"
  shows "utterances_of rt raw = Some (map (spec_utterance rt) ps)"
proof -
  from assms(1) have a: "\<not> nullish (alternative0 raw)"
    by (auto simp: paragraph_sequence_def member_nullish)
  have "those (map (utterance_of rt) ps) = Some (map (spec_utterance rt) ps)"
    by (rule those_map_Some) (use assms(3) in \<open>simp add: list_all_iff utterance_of_shape\<close>)
  then show ?thesis
    using assms(1,2) by (simp add: utterances_of_def paragraphs_of_present [OF a] or_else_def)
qed

lemma utterances_of_fallback:
  assumes "\<not> nullish (alternative0 raw)"
    and "\<not> truthy rt (paragraph_sequence (alternative0 raw))
         \<or> paragraph_sequence (alternative0 raw) = JArr []"
  shows "utterances_of rt raw
         = Some [JObj [(''speaker'', JStr ''Speaker''),
                       (''text'', member (alternative0 raw) ''transcript'')]]"
  using assms
  by (auto simp: utterances_of_def paragraphs_of_present first_alternative_present or_else_def
      get_prop_def)

lemma utterance_of_object: "utterance_of rt p = Some u \<Longrightarrow> \<not> nullish u"
  by (auto simp: utterance_of_def nullish_def split: Option.bind_splits)

lemma utterances_of_objects:
  assumes "utterances_of rt raw = Some us" and "u \<in> set us"
  shows "\<not> nullish u"
proof -
  from assms(1) consider ps where "array_map (utterance_of rt) ps = Some us"
    | t where "us = [JObj [(''speaker'', JStr ''Speaker''), (''text'', t)]]"
    by (auto simp: utterances_of_def split: Option.bind_splits if_splits)
  then show ?thesis
  proof cases
    case 1
    then obtain xs where "those (map (utterance_of rt) xs) = Some us"
      by (cases ps) auto
    from those_map_elem [OF this assms(2)] show ?thesis
      by (auto dest: utterance_of_object)
  next
    case 2
    with assms(2) show ?thesis by (simp add: nullish_def)
  qed
qed

lemma spec_utterance_object: "\<not> nullish (spec_utterance rt p)"
  by (simp add: spec_utterance_def nullish_def)

subsection \<open>The transcript\<close>

lemma format_utterance_spec:
  "\<not> nullish u \<Longrightarrow> format_utterance rt u = map_option JStr (spec_line rt u)"
  by (auto simp: format_utterance_def spec_line_def get_prop_def split: Option.bind_split option.splits)

lemma fullTranscript_those:
  assumes "\<And>u. u \<in> set us \<Longrightarrow> \<not> nullish u"
  shows "fullTranscript rt us = map_option (join_strings blank_line) (those (map (spec_line rt) us))"
proof -
  have "map (format_utterance rt) us = map (\<lambda>u. map_option JStr (spec_line rt u)) us"
    using assms by (simp add: format_utterance_spec)
  then have "those (map (format_utterance rt) us)
      = those (map (\<lambda>u. map_option JStr (spec_line rt u)) us)"
    by (rule arg_cong)
  then have "those (map (format_utterance rt) us) = map_option (map JStr) (those (map (spec_line rt) us))"
    by (simp only: those_map_option)
  then show ?thesis
    by (cases "those (map (spec_line rt) us)") (simp_all add: fullTranscript_def js_join_strings)
qed

lemma those_spec_transcript:
  "spec_transcript rt us
     = map_option (join_strings [CHR 0x0A, CHR 0x0A]) (those (map (spec_line rt) us))"
  by (induction rt us rule: spec_transcript.induct) (auto split: option.splits)

lemma fullTranscript_spec:
  "(\<And>u. u \<in> set us \<Longrightarrow> \<not> nullish u) \<Longrightarrow> fullTranscript rt us = spec_transcript rt us"
  by (simp add: fullTranscript_those those_spec_transcript blank_line_def)

lemma fullTranscript_defined:
  assumes "\<And>u. u \<in> set us \<Longrightarrow> \<not> nullish u \<and> spec_line rt u \<noteq> None"
  shows "fullTranscript rt us \<noteq> None"
proof -
  have "those (map (spec_line rt) us) = Some (map (\<lambda>u. the (spec_line rt u)) us)"
    by (rule those_map_Some) (use assms in auto)
  then show ?thesis
    using assms by (simp add: fullTranscript_those)
qed

lemma spec_line_spec_utterance: "spec_line rt (spec_utterance rt p) \<noteq> None"
  by (simp add: spec_line_def spec_utterance_def)

lemma fullTranscript_spec_utterances: "fullTranscript rt (map (spec_utterance rt) ps) \<noteq> None"
proof (rule fullTranscript_defined)
  fix u assume "u \<in> set (map (spec_utterance rt) ps)"
  then obtain p where "u = spec_utterance rt p" by auto
  then show "\<not> nullish u \<and> spec_line rt u \<noteq> None"
    by (simp add: spec_utterance_object spec_line_spec_utterance)
qed

subsection \<open>The records of the two handlers\<close>

text \<open>
  Once the utterances are there the rest of a handler cannot throw: the record is
  there as soon as the utterances and the transcript are.
\<close>

lemma normalize_api_eq:
  "normalize_api rt now stamp fileName raw =
     (case utterances_of rt raw of
        None \<Rightarrow> None
      | Some us \<Rightarrow>
          (case fullTranscript rt us of
             None \<Rightarrow> None
           | Some t \<Rightarrow> Some (JObj
               [(''id'', JStr (dec_nat now)),
                (''fileName'', JStr fileName),
                (''transcript'', JStr t),
                (''utterances'', JArr us),
                (''summary'',
                   or_else rt (summary_value (alternative0 raw)) (JStr ''Summary not available.'')),
                (''bullets'', JStr ''Key insights are included in the summary above.''),
                (''metadata'', JObj
                   [(''duration'', or_else rt (duration_value raw) (JNum (num_zero rt))),
                    (''model'', or_else rt (member (member (member raw ''metadata'') ''model_info'') ''name'')
                        (JStr ''nova-2'')),
                    (''processedAt'', JStr stamp)])])))"
proof (cases "utterances_of rt raw")
  case None
  then show ?thesis by (simp add: normalize_api_def)
next
  case (Some us)
  then have a: "\<not> nullish (alternative0 raw)" by (rule utterances_of_present)
  then have r: "\<not> nullish raw" by (rule alternative0_raw)
  show ?thesis
    using Some a r
    by (simp add: normalize_api_def first_alternative_present get_prop_def opt_prop_member
        opt_index_index summary_value_def duration_value_def split: option.splits)
qed

lemma normalize_server_eq:
  "normalize_server rt raw =
     (case utterances_of rt raw of
        None \<Rightarrow> None
      | Some us \<Rightarrow>
          (case fullTranscript rt us of
             None \<Rightarrow> None
           | Some t \<Rightarrow> Some (JObj
               [(''transcript'', JStr t),
                (''utterances'', JArr us),
                (''summary'',
                   or_else rt (summary_value (alternative0 raw))
                     (JStr ''Summary not available for this audio length or quality.'')),
                (''bullets'', JStr
                   ''Key insights are included in the summary above. Speaker labeling is active in the full transcript.'')])))"
proof (cases "utterances_of rt raw")
  case None
  then show ?thesis by (simp add: normalize_server_def)
next
  case (Some us)
  then have a: "\<not> nullish (alternative0 raw)" by (rule utterances_of_present)
  show ?thesis
    using Some a
    by (simp add: normalize_server_def first_alternative_present get_prop_def opt_prop_member
        opt_index_index summary_value_def split: option.splits)
qed

lemma normalize_api_summary:
  "normalize_api rt now stamp fileName raw = Some d \<Longrightarrow>
   member d ''summary''
     = or_else rt (summary_value (alternative0 raw)) (JStr ''Summary not available.'')"
  by (auto simp: normalize_api_eq split: option.splits)

lemma normalize_server_summary:
  "normalize_server rt raw = Some d \<Longrightarrow>
   member d ''summary''
     = or_else rt (summary_value (alternative0 raw))
         (JStr ''Summary not available for this audio length or quality.'')"
  by (auto simp: normalize_server_eq split: option.splits)

lemma or_else_defined: "b \<noteq> JUndef \<Longrightarrow> or_else rt a b \<noteq> JUndef"
  by (cases a) (auto simp: or_else_def)

lemma or_else_not_empty: "b \<noteq> JStr [] \<Longrightarrow> or_else rt a b \<noteq> JStr []"
  by (cases a) (auto simp: or_else_def)

lemma or_else_text: "is_text v \<and> v \<noteq> JStr [] \<Longrightarrow> or_else rt v b = v"
  by (cases v) (auto simp: or_else_def)

lemma or_else_absent: "v = JUndef \<or> v = JStr [] \<Longrightarrow> or_else rt v b = b"
  by (auto simp: or_else_def)

subsection \<open>Decimal numerals and identifiers\<close>

lemma digit_char_inj:
  assumes "d < 10" and "e < 10" and "digit_char d = digit_char e"
  shows "d = e"
proof -
  have "d \<in> {0, 1, 2, 3, 4, 5, 6, 7, 8, 9}" and "e \<in> {0, 1, 2, 3, 4, 5, 6, 7, 8, 9}"
    using assms(1,2) by auto
  then show ?thesis
    using assms(3) by (auto simp: digit_char_def)
qed

lemma dec_nat_not_Nil: "dec_nat n \<noteq> []" "[] \<noteq> dec_nat n"
  by (subst dec_nat.simps, simp)+

lemma dec_nat_inj: "dec_nat n = dec_nat m \<Longrightarrow> n = m"
proof (induction n arbitrary: m rule: dec_nat.induct)
  case (1 n)
  show ?case
  proof (cases "n < 10")
    case small: True
    show ?thesis
    proof (cases "m < 10")
      case True
      with small "1.prems" show ?thesis
        by (simp add: dec_nat.simps [of n] dec_nat.simps [of m] digit_char_inj)
    next
      case False
      with small "1.prems" show ?thesis
        by (simp add: dec_nat.simps [of n] dec_nat.simps [of m] dec_nat_not_Nil)
    qed
  next
    case big: False
    show ?thesis
    proof (cases "m < 10")
      case True
      with big "1.prems" show ?thesis
        by (simp add: dec_nat.simps [of n] dec_nat.simps [of m] dec_nat_not_Nil)
    next
      case False
      with big "1.prems" have "dec_nat (n div 10) = dec_nat (m div 10)"
        and "digit_char (n mod 10) = digit_char (m mod 10)"
        by (simp_all add: dec_nat.simps [of n] dec_nat.simps [of m])
      then have "n div 10 = m div 10" and "n mod 10 = m mod 10"
        using "1.IH" [OF big] by (simp_all add: digit_char_inj)
      then show ?thesis
        by (metis div_mult_mod_eq)
    qed
  qed
qed

lemma map_of_set_property:
  "map_of (set_property k v kvs) k' = (if k' = k then Some v else map_of kvs k')"
  by (induction kvs) auto

lemma newResult_id: "member (newResult now name data) ''id'' = JStr (dec_nat now)"
  by (simp add: newResult_def map_of_set_property)

subsection \<open>The capped history\<close>

lemma length_push_history: "length (push_history r prev) \<le> 20"
  by (simp add: push_history_def slice0_def)

lemma push_history_eq: "push_history r prev = r # take 19 prev"
proof -
  have "take (Suc 19) (r # prev) = r # take 19 prev"
    by (rule take_Suc_Cons)
  then show ?thesis
    by (simp add: push_history_def slice0_def)
qed

subsection \<open>The single utterance of a payload without paragraphs\<close>

lemma fallback_normalized:
  assumes "\<not> nullish (alternative0 raw)"
    and "\<not> truthy rt (paragraph_sequence (alternative0 raw))
         \<or> paragraph_sequence (alternative0 raw) = JArr []"
    and "member (alternative0 raw) ''transcript'' = JUndef
         \<or> is_text (member (alternative0 raw) ''transcript'')"
  shows "(\<exists>d. normalize_api rt now stamp fileName raw = Some d
            \<and> member d ''utterances''
                = JArr [JObj [(''speaker'', JStr ''Speaker''),
                              (''text'', member (alternative0 raw) ''transcript'')]]
            \<and> member d ''transcript''
                = JStr (''[Speaker]: '' @
                    (if member (alternative0 raw) ''transcript'' = JUndef then ''undefined''
                     else text_of (member (alternative0 raw) ''transcript''))))
       \<and> (\<exists>d. normalize_server rt raw = Some d
            \<and> member d ''utterances''
                = JArr [JObj [(''speaker'', JStr ''Speaker''),
                              (''text'', member (alternative0 raw) ''transcript'')]]
            \<and> member d ''transcript''
                = JStr (''[Speaker]: '' @
                    (if member (alternative0 raw) ''transcript'' = JUndef then ''undefined''
                     else text_of (member (alternative0 raw) ''transcript''))))"
proof -
  let ?t = "member (alternative0 raw) ''transcript''"
  let ?u = "JObj [(''speaker'', JStr ''Speaker''), (''text'', ?t)]"
  have us: "utterances_of rt raw = Some [?u]"
    using assms(1,2) by (rule utterances_of_fallback)
  have ts: "to_str rt ?t = Some (if ?t = JUndef then ''undefined'' else text_of ?t)"
    using assms(3) by (cases ?t) auto
  have "fullTranscript rt [?u] = spec_transcript rt [?u]"
    by (rule fullTranscript_spec) (simp add: nullish_def)
  then have ft: "fullTranscript rt [?u]
      = Some (''[Speaker]: '' @ (if ?t = JUndef then ''undefined'' else text_of ?t))"
    using ts by (simp add: spec_line_def)
  show ?thesis
    using us ft by (simp add: normalize_api_eq normalize_server_eq)
qed

lemma is_primitive_member: "is_primitive v \<Longrightarrow> member v k = JUndef"
  by (cases v) auto

lemma is_primitive_present: "is_primitive v \<Longrightarrow> \<not> nullish v"
  by (cases v) (auto simp: nullish_def)

lemma primitive_normalized:
  assumes "is_primitive (alternative0 raw)"
  shows "(\<exists>d. normalize_api rt now stamp fileName raw = Some d
            \<and> member d ''utterances'' = JArr [JObj [(''speaker'', JStr ''Speaker''), (''text'', JUndef)]])
       \<and> (\<exists>d. normalize_server rt raw = Some d
            \<and> member d ''utterances'' = JArr [JObj [(''speaker'', JStr ''Speaker''), (''text'', JUndef)]])"
proof -
  have a: "\<not> nullish (alternative0 raw)"
    using assms by (rule is_primitive_present)
  have p: "\<not> truthy rt (paragraph_sequence (alternative0 raw))
      \<or> paragraph_sequence (alternative0 raw) = JArr []"
    using assms by (simp add: paragraph_sequence_def is_primitive_member)
  have t: "member (alternative0 raw) ''transcript'' = JUndef"
    using assms by (rule is_primitive_member)
  then have t': "member (alternative0 raw) ''transcript'' = JUndef
      \<or> is_text (member (alternative0 raw) ''transcript'')"
    by simp
  show ?thesis
    using fallback_normalized [OF a p t', of now stamp fileName] by (auto simp: t)
qed

section \<open>The claims\<close>

text \<open>
  C1. When \<open>alternatives[0]\<close> of the payload holds a non-empty sequence of paragraphs,
  each of the shape of the data model (a speaker that is a number or a string, and a
  sequence of sentences with a text each), both handlers give a record, and its
  utterances are the utterances of the paragraphs, one for each, in the same order: the
  speaker of each is \<open>Speaker\<close>, a space and the paragraph's speaker, and its text the
  paragraph's sentence texts with a single space between them.
\<close>

theorem paragraphs_to_utterances:
  assumes "paragraph_sequence (alternative0 raw) = JArr ps"
    and "ps \<noteq> []"
    and "list_all paragraph_shape ps"
  shows "(\<exists>d. normalize_api rt now stamp fileName raw = Some d
            \<and> member d ''utterances'' = JArr (map (spec_utterance rt) ps))
       \<and> (\<exists>d. normalize_server rt raw = Some d
            \<and> member d ''utterances'' = JArr (map (spec_utterance rt) ps))
       \<and> length (map (spec_utterance rt) ps) = length ps"
proof -
  have us: "utterances_of rt raw = Some (map (spec_utterance rt) ps)"
    using assms by (rule utterances_of_paragraphs)
  obtain t where t: "fullTranscript rt (map (spec_utterance rt) ps) = Some t"
    using fullTranscript_spec_utterances [of rt ps] by auto
  show ?thesis
    using us t by (simp add: normalize_api_eq normalize_server_eq)
qed

theorem paragraphs_to_utterances_witness:
  "paragraph_sequence (alternative0 scenario1) = JArr [scenario1_paragraph]
   \<and> [scenario1_paragraph] \<noteq> []
   \<and> list_all paragraph_shape [scenario1_paragraph]
   \<and> (\<exists>d. normalize_api int_runtime 17 ''t'' ''a.mp3'' scenario1 = Some d
          \<and> member d ''utterances''
              = JArr [JObj [(''speaker'', JStr ''Speaker 0''), (''text'', JStr ''hello world'')]])
   \<and> (\<exists>d. normalize_server int_runtime scenario1 = Some d
          \<and> member d ''utterances''
              = JArr [JObj [(''speaker'', JStr ''Speaker 0''), (''text'', JStr ''hello world'')]])"
proof -
  have h1: "paragraph_sequence (alternative0 scenario1) = JArr [scenario1_paragraph]"
    by code_simp
  have h2: "[scenario1_paragraph] \<noteq> []"
    by simp
  have h3: "list_all paragraph_shape [scenario1_paragraph]"
    by code_simp
  have u: "map (spec_utterance int_runtime) [scenario1_paragraph]
      = [JObj [(''speaker'', JStr ''Speaker 0''), (''text'', JStr ''hello world'')]]"
    by code_simp
  show ?thesis
    using paragraphs_to_utterances [OF h1 h2 h3, of int_runtime 17 "''t''" "''a.mp3''"] h1 h2 h3
    unfolding u by simp
qed

text \<open>
  C2, as the code has it. When \<open>alternatives[0]\<close> is there and its
  \<open>paragraphs.paragraphs\<close> is absent, some other falsy value, or an empty sequence, and the
  transcript field is a string or absent, both handlers give a record with exactly one
  utterance: its speaker is \<open>Speaker\<close> and its text is the transcript field as it is, so
  \<open>undefined\<close> when the field is absent. The transcript of the record is \<open>[Speaker]: \<close>
  and that text, so it reads \<open>[Speaker]: undefined\<close> when the field is absent.
\<close>

theorem fallback_utterance:
  assumes "\<not> nullish (alternative0 raw)"
    and "\<not> truthy rt (paragraph_sequence (alternative0 raw))
         \<or> paragraph_sequence (alternative0 raw) = JArr []"
    and "member (alternative0 raw) ''transcript'' = JUndef
         \<or> is_text (member (alternative0 raw) ''transcript'')"
  shows "(\<exists>d. normalize_api rt now stamp fileName raw = Some d
            \<and> member d ''utterances''
                = JArr [JObj [(''speaker'', JStr ''Speaker''),
                              (''text'', member (alternative0 raw) ''transcript'')]]
            \<and> member d ''transcript''
                = JStr (''[Speaker]: '' @
                    (if member (alternative0 raw) ''transcript'' = JUndef then ''undefined''
                     else text_of (member (alternative0 raw) ''transcript''))))
       \<and> (\<exists>d. normalize_server rt raw = Some d
            \<and> member d ''utterances''
                = JArr [JObj [(''speaker'', JStr ''Speaker''),
                              (''text'', member (alternative0 raw) ''transcript'')]]
            \<and> member d ''transcript''
                = JStr (''[Speaker]: '' @
                    (if member (alternative0 raw) ''transcript'' = JUndef then ''undefined''
                     else text_of (member (alternative0 raw) ''transcript''))))"
  using assms by (rule fallback_normalized)

theorem fallback_utterance_witness:
  "\<not> nullish (alternative0 (payload_of (JObj [(''transcript'', JStr ''just one line'')])))
   \<and> (\<exists>d. normalize_api int_runtime 17 ''t'' ''a.mp3''
              (payload_of (JObj [(''transcript'', JStr ''just one line'')])) = Some d
          \<and> member d ''utterances''
              = JArr [JObj [(''speaker'', JStr ''Speaker''), (''text'', JStr ''just one line'')]]
          \<and> member d ''transcript'' = JStr ''[Speaker]: just one line'')
   \<and> (\<exists>d. normalize_server int_runtime
              (payload_of (JObj [(''transcript'', JStr ''just one line'')])) = Some d
          \<and> member d ''utterances''
              = JArr [JObj [(''speaker'', JStr ''Speaker''), (''text'', JStr ''just one line'')]]
          \<and> member d ''transcript'' = JStr ''[Speaker]: just one line'')
   \<and> \<not> nullish (alternative0 (payload_of (JObj [])) :: int jv)
   \<and> (\<exists>d. normalize_server int_runtime (payload_of (JObj [])) = Some d
          \<and> member d ''utterances'' = JArr [JObj [(''speaker'', JStr ''Speaker''), (''text'', JUndef)]]
          \<and> member d ''transcript'' = JStr ''[Speaker]: undefined'')"
proof -
  let ?p = "payload_of (JObj [(''transcript'', JStr ''just one line'')])"
  let ?q = "payload_of (JObj [])"
  have h1: "\<not> nullish (alternative0 ?p)"
    by code_simp
  have "\<not> truthy int_runtime (paragraph_sequence (alternative0 ?p))"
    by code_simp
  then have h2: "\<not> truthy int_runtime (paragraph_sequence (alternative0 ?p))
      \<or> paragraph_sequence (alternative0 ?p) = JArr []"
    by simp
  have t: "member (alternative0 ?p) ''transcript'' = JStr ''just one line''"
    by code_simp
  then have h3: "member (alternative0 ?p) ''transcript'' = JUndef
      \<or> is_text (member (alternative0 ?p) ''transcript'')"
    by simp
  have k1: "\<not> nullish (alternative0 ?q :: int jv)"
    by code_simp
  have "\<not> truthy int_runtime (paragraph_sequence (alternative0 ?q))"
    by code_simp
  then have k2: "\<not> truthy int_runtime (paragraph_sequence (alternative0 ?q))
      \<or> paragraph_sequence (alternative0 ?q) = JArr []"
    by simp
  have u: "member (alternative0 ?q) ''transcript'' = (JUndef :: int jv)"
    by code_simp
  then have k3: "member (alternative0 ?q) ''transcript'' = (JUndef :: int jv)
      \<or> is_text (member (alternative0 ?q) ''transcript'' :: int jv)"
    by simp
  have first: "(\<exists>d. normalize_api int_runtime 17 ''t'' ''a.mp3'' ?p = Some d
          \<and> member d ''utterances''
              = JArr [JObj [(''speaker'', JStr ''Speaker''), (''text'', JStr ''just one line'')]]
          \<and> member d ''transcript'' = JStr ''[Speaker]: just one line'')
      \<and> (\<exists>d. normalize_server int_runtime ?p = Some d
          \<and> member d ''utterances''
              = JArr [JObj [(''speaker'', JStr ''Speaker''), (''text'', JStr ''just one line'')]]
          \<and> member d ''transcript'' = JStr ''[Speaker]: just one line'')"
    using fallback_utterance [OF h1 h2 h3, of 17 "''t''" "''a.mp3''"]
    unfolding t by simp
  have second: "\<exists>d. normalize_server int_runtime ?q = Some d
          \<and> member d ''utterances'' = JArr [JObj [(''speaker'', JStr ''Speaker''), (''text'', JUndef)]]
          \<and> member d ''transcript'' = JStr ''[Speaker]: undefined''"
    using fallback_utterance [OF k1 k2 k3, of 17 "''t''" "''a.mp3''"]
    unfolding u by simp
  show ?thesis
    using h1 k1 first second by simp
qed

text \<open>
  With no transcript field the text of the utterance is \<open>undefined\<close>, not the empty
  string, and the transcript reads \<open>[Speaker]: undefined\<close>.
\<close>

theorem fallback_text_counterexample:
  "normalize_api int_runtime 17 ''t'' ''a.mp3'' (payload_of (JObj []))
     = Some (JObj [(''id'', JStr ''17''), (''fileName'', JStr ''a.mp3''),
           (''transcript'', JStr ''[Speaker]: undefined''),
           (''utterances'', JArr [JObj [(''speaker'', JStr ''Speaker''), (''text'', JUndef)]]),
           (''summary'', JStr ''Summary not available.''),
           (''bullets'', JStr ''Key insights are included in the summary above.''),
           (''metadata'', JObj [(''duration'', JNum 0), (''model'', JStr ''nova-2''),
                                (''processedAt'', JStr ''t'')])])"
  by code_simp

text \<open>
  C3, as the code has it. When the value at \<open>results.channels[0].alternatives[0]\<close> is
  absent or \<open>null\<close>, the normalization of both handlers throws a \<open>TypeError\<close>: there is
  no record, and the handler, given a file and no provider error, answers with status
  500 and the message \<open>Error processing audio\<close>. When that value is a string, a number or
  a boolean, so not an object, the normalization of both handlers throws nothing: it
  gives a record, with the single utterance of the speaker \<open>Speaker\<close> and the text
  \<open>undefined\<close>, and the handler answers with that record.
\<close>

theorem absent_throws_primitive_passes:
  "(nullish (alternative0 raw) \<longrightarrow>
      normalize_api rt now stamp fileName raw = None
      \<and> normalize_server rt raw = None
      \<and> (\<not> truthy rt err \<longrightarrow>
            api_upload rt now stamp (Some fileName) (Resolved raw err)
              = Send 500 ''Error processing audio'' (Some TypeError))
      \<and> (\<not> truthy rt err \<longrightarrow>
            server_upload rt (Some fileName) (Resolved raw err)
              = Send 500 ''Error processing audio'' (Some TypeError)))
   \<and> (is_primitive (alternative0 raw) \<longrightarrow>
      (\<exists>d. normalize_api rt now stamp fileName raw = Some d
          \<and> member d ''utterances'' = JArr [JObj [(''speaker'', JStr ''Speaker''), (''text'', JUndef)]]
          \<and> (\<not> truthy rt err \<longrightarrow>
                api_upload rt now stamp (Some fileName) (Resolved raw err) = Json d))
      \<and> (\<exists>d. normalize_server rt raw = Some d
          \<and> member d ''utterances'' = JArr [JObj [(''speaker'', JStr ''Speaker''), (''text'', JUndef)]]
          \<and> (\<not> truthy rt err \<longrightarrow>
                server_upload rt (Some fileName) (Resolved raw err) = Json d)))"
proof (intro conjI impI)
  assume absent: "nullish (alternative0 raw)"
  have none: "utterances_of rt raw = None"
    using absent by (rule utterances_of_absent)
  show "normalize_api rt now stamp fileName raw = None"
    using none by (simp add: normalize_api_eq)
  show "normalize_server rt raw = None"
    using none by (simp add: normalize_server_eq)
  show "api_upload rt now stamp (Some fileName) (Resolved raw err)
      = Send 500 ''Error processing audio'' (Some TypeError)" if "\<not> truthy rt err"
    using none that by (simp add: normalize_api_eq api_upload_def)
  show "server_upload rt (Some fileName) (Resolved raw err)
      = Send 500 ''Error processing audio'' (Some TypeError)" if "\<not> truthy rt err"
    using none that by (simp add: normalize_server_eq server_upload_def)
next
  assume "is_primitive (alternative0 raw)"
  then obtain d where "normalize_api rt now stamp fileName raw = Some d"
    and "member d ''utterances'' = JArr [JObj [(''speaker'', JStr ''Speaker''), (''text'', JUndef)]]"
    using primitive_normalized [of raw rt now stamp fileName] by blast
  then show "\<exists>d. normalize_api rt now stamp fileName raw = Some d
      \<and> member d ''utterances'' = JArr [JObj [(''speaker'', JStr ''Speaker''), (''text'', JUndef)]]
      \<and> (\<not> truthy rt err \<longrightarrow>
            api_upload rt now stamp (Some fileName) (Resolved raw err) = Json d)"
    by (simp add: api_upload_def)
next
  assume "is_primitive (alternative0 raw)"
  then obtain d where "normalize_server rt raw = Some d"
    and "member d ''utterances'' = JArr [JObj [(''speaker'', JStr ''Speaker''), (''text'', JUndef)]]"
    using primitive_normalized [of raw rt now stamp fileName] by blast
  then show "\<exists>d. normalize_server rt raw = Some d
      \<and> member d ''utterances'' = JArr [JObj [(''speaker'', JStr ''Speaker''), (''text'', JUndef)]]
      \<and> (\<not> truthy rt err \<longrightarrow>
            server_upload rt (Some fileName) (Resolved raw err) = Json d)"
    by (simp add: server_upload_def)
qed

theorem absent_throws_primitive_passes_witness:
  "nullish (alternative0 (JObj [(''results'', JObj [])] :: int jv))
   \<and> normalize_api int_runtime 17 ''t'' ''a.mp3'' (JObj [(''results'', JObj [])]) = None
   \<and> normalize_server int_runtime (JObj [(''results'', JObj [])]) = None
   \<and> api_upload int_runtime 17 ''t'' (Some ''a.mp3'') (Resolved (JObj [(''results'', JObj [])]) JUndef)
       = Send 500 ''Error processing audio'' (Some TypeError)
   \<and> server_upload int_runtime (Some ''a.mp3'') (Resolved (JObj [(''results'', JObj [])]) JUndef)
       = Send 500 ''Error processing audio'' (Some TypeError)
   \<and> is_primitive (alternative0 (payload_of (JNum 7)))
   \<and> (\<exists>d. normalize_api int_runtime 17 ''t'' ''a.mp3'' (payload_of (JNum 7)) = Some d
          \<and> member d ''utterances'' = JArr [JObj [(''speaker'', JStr ''Speaker''), (''text'', JUndef)]]
          \<and> api_upload int_runtime 17 ''t'' (Some ''a.mp3'') (Resolved (payload_of (JNum 7)) JUndef)
              = Json d)
   \<and> (\<exists>d. normalize_server int_runtime (payload_of (JNum 7)) = Some d
          \<and> member d ''utterances'' = JArr [JObj [(''speaker'', JStr ''Speaker''), (''text'', JUndef)]]
          \<and> server_upload int_runtime (Some ''a.mp3'') (Resolved (payload_of (JNum 7)) JUndef)
              = Json d)"
proof -
  have h: "nullish (alternative0 (JObj [(''results'', JObj [])] :: int jv))"
    by code_simp
  have k: "is_primitive (alternative0 (payload_of (JNum 7)))"
    by code_simp
  have e: "\<not> truthy int_runtime JUndef"
    by simp
  show ?thesis
    using absent_throws_primitive_passes
        [of "JObj [(''results'', JObj [])]" int_runtime 17 "''t''" "''a.mp3''" JUndef]
      absent_throws_primitive_passes
        [of "payload_of (JNum 7)" int_runtime 17 "''t''" "''a.mp3''" JUndef]
      h k e
    by simp
qed

text \<open>
  A first alternative that is a string is not an object, and is normalized all the
  same: the handler of \<open>api/index.js\<close> answers with a record.
\<close>

theorem not_an_object_counterexample:
  "alternative0 (payload_of (JStr ''x'')) = JStr ''x''
   \<and> api_upload int_runtime 17 ''t'' (Some ''a.mp3'') (Resolved (payload_of (JStr ''x'')) JUndef)
     = Json (JObj [(''id'', JStr ''17''), (''fileName'', JStr ''a.mp3''),
           (''transcript'', JStr ''[Speaker]: undefined''),
           (''utterances'', JArr [JObj [(''speaker'', JStr ''Speaker''), (''text'', JUndef)]]),
           (''summary'', JStr ''Summary not available.''),
           (''bullets'', JStr ''Key insights are included in the summary above.''),
           (''metadata'', JObj [(''duration'', JNum 0), (''model'', JStr ''nova-2''),
                                (''processedAt'', JStr ''t'')])])"
  by code_simp

text \<open>
  C4. In every record of either handler, the transcript is the utterances of that
  record, each written \<open>[speaker]: text\<close>, in their order, with a blank line (two line
  feeds) between two of them.
\<close>

theorem transcript_from_utterances:
  "(normalize_api rt now stamp fileName raw = Some d \<longrightarrow>
      (\<exists>us t. member d ''utterances'' = JArr us \<and> member d ''transcript'' = JStr t
         \<and> spec_transcript rt us = Some t))
   \<and> (normalize_server rt raw = Some d' \<longrightarrow>
      (\<exists>us t. member d' ''utterances'' = JArr us \<and> member d' ''transcript'' = JStr t
         \<and> spec_transcript rt us = Some t))"
proof -
  have "fullTranscript rt us = Some t \<Longrightarrow> spec_transcript rt us = Some t"
    if "utterances_of rt raw = Some us" for us t
    using utterances_of_objects [OF that] by (simp add: fullTranscript_spec)
  then show ?thesis
    by (auto simp: normalize_api_eq normalize_server_eq split: option.splits)
qed

theorem transcript_from_utterances_witness:
  "normalize_api int_runtime 17 ''t'' ''a.mp3'' dialogue = Some dialogue_record
   \<and> normalize_server int_runtime dialogue = Some dialogue_body
   \<and> spec_transcript int_runtime
        [JObj [(''speaker'', JStr ''Speaker 0''), (''text'', JStr ''hello'')],
         JObj [(''speaker'', JStr ''Speaker 1''), (''text'', JStr ''hi there'')]]
       = Some (''[Speaker 0]: hello'' @ [CHR 0x0A, CHR 0x0A] @ ''[Speaker 1]: hi there'')"
proof -
  have a: "normalize_api int_runtime 17 ''t'' ''a.mp3'' dialogue = Some dialogue_record"
    by code_simp
  have b: "normalize_server int_runtime dialogue = Some dialogue_body"
    by code_simp
  show ?thesis
    using transcript_from_utterances [of int_runtime 17 "''t''" "''a.mp3''" dialogue
        dialogue_record dialogue_body] a b
    by (simp add: dialogue_record_def)
qed

text \<open>
  C5. In every record of either handler, the summary is the value at
  \<open>alternatives[0].summaries[0].summary\<close> when that value is truthy, so when it is a
  non-empty text, and otherwise the fixed text of that handler, so when the value is
  absent or the empty string; it is never the empty string.
\<close>

theorem summary_or_sentinel:
  "(normalize_api rt now stamp fileName raw = Some d \<longrightarrow>
      member d ''summary''
        = (if truthy rt (summary_value (alternative0 raw)) then summary_value (alternative0 raw)
           else JStr ''Summary not available.'')
      \<and> (is_text (summary_value (alternative0 raw)) \<and> summary_value (alternative0 raw) \<noteq> JStr []
           \<longrightarrow> member d ''summary'' = summary_value (alternative0 raw))
      \<and> (summary_value (alternative0 raw) = JUndef \<or> summary_value (alternative0 raw) = JStr []
           \<longrightarrow> member d ''summary'' = JStr ''Summary not available.'')
      \<and> member d ''summary'' \<noteq> JStr [])
   \<and> (normalize_server rt raw = Some d' \<longrightarrow>
      member d' ''summary''
        = (if truthy rt (summary_value (alternative0 raw)) then summary_value (alternative0 raw)
           else JStr ''Summary not available for this audio length or quality.'')
      \<and> (is_text (summary_value (alternative0 raw)) \<and> summary_value (alternative0 raw) \<noteq> JStr []
           \<longrightarrow> member d' ''summary'' = summary_value (alternative0 raw))
      \<and> (summary_value (alternative0 raw) = JUndef \<or> summary_value (alternative0 raw) = JStr []
           \<longrightarrow> member d' ''summary'' = JStr ''Summary not available for this audio length or quality.'')
      \<and> member d' ''summary'' \<noteq> JStr [])"
proof (intro conjI impI)
  assume "normalize_api rt now stamp fileName raw = Some d"
  then have s: "member d ''summary''
      = or_else rt (summary_value (alternative0 raw)) (JStr ''Summary not available.'')"
    by (rule normalize_api_summary)
  show "member d ''summary''
        = (if truthy rt (summary_value (alternative0 raw)) then summary_value (alternative0 raw)
           else JStr ''Summary not available.'')"
    by (simp only: s or_else_def)
  show "member d ''summary'' = summary_value (alternative0 raw)"
    if "is_text (summary_value (alternative0 raw)) \<and> summary_value (alternative0 raw) \<noteq> JStr []"
    unfolding s using that by (rule or_else_text)
  show "member d ''summary'' = JStr ''Summary not available.''"
    if "summary_value (alternative0 raw) = JUndef \<or> summary_value (alternative0 raw) = JStr []"
    unfolding s using that by (rule or_else_absent)
  show "member d ''summary'' \<noteq> JStr []"
    by (simp add: s or_else_not_empty)
next
  assume "normalize_server rt raw = Some d'"
  then have s: "member d' ''summary''
      = or_else rt (summary_value (alternative0 raw))
          (JStr ''Summary not available for this audio length or quality.'')"
    by (rule normalize_server_summary)
  show "member d' ''summary''
        = (if truthy rt (summary_value (alternative0 raw)) then summary_value (alternative0 raw)
           else JStr ''Summary not available for this audio length or quality.'')"
    by (simp only: s or_else_def)
  show "member d' ''summary'' = summary_value (alternative0 raw)"
    if "is_text (summary_value (alternative0 raw)) \<and> summary_value (alternative0 raw) \<noteq> JStr []"
    unfolding s using that by (rule or_else_text)
  show "member d' ''summary'' = JStr ''Summary not available for this audio length or quality.''"
    if "summary_value (alternative0 raw) = JUndef \<or> summary_value (alternative0 raw) = JStr []"
    unfolding s using that by (rule or_else_absent)
  show "member d' ''summary'' \<noteq> JStr []"
    by (simp add: s or_else_not_empty)
qed

theorem summary_or_sentinel_witness:
  "normalize_api int_runtime 17 ''t'' ''a.mp3'' scenario4
     = Some (fallback_record ''17'' ''a.mp3'' (JStr ''hi'') (JStr ''Meeting covered budget.'') (JNum 0))
   \<and> normalize_server int_runtime scenario4 = Some scenario4_body
   \<and> is_text (summary_value (alternative0 scenario4))
   \<and> summary_value (alternative0 scenario4) \<noteq> JStr []
   \<and> member (fallback_record ''17'' ''a.mp3'' (JStr ''hi'') (JStr ''Meeting covered budget.'') (JNum 0))
        ''summary'' = summary_value (alternative0 scenario4)
   \<and> member scenario4_body ''summary'' = summary_value (alternative0 scenario4)"
proof -
  have a: "normalize_api int_runtime 17 ''t'' ''a.mp3'' scenario4
     = Some (fallback_record ''17'' ''a.mp3'' (JStr ''hi'') (JStr ''Meeting covered budget.'') (JNum 0))"
    by code_simp
  have b: "normalize_server int_runtime scenario4 = Some scenario4_body"
    by code_simp
  have v: "is_text (summary_value (alternative0 scenario4))"
    "summary_value (alternative0 scenario4) \<noteq> JStr []"
    by code_simp+
  show ?thesis
    using summary_or_sentinel [of int_runtime 17 "''t''" "''a.mp3''" scenario4
        "fallback_record ''17'' ''a.mp3'' (JStr ''hi'') (JStr ''Meeting covered budget.'') (JNum 0)"
        scenario4_body] a b v
    by blast
qed

text \<open>
  C6, as the code has it. A record of \<open>api/index.js\<close> has the fields \<open>id\<close>, \<open>fileName\<close>,
  \<open>transcript\<close>, \<open>utterances\<close>, \<open>summary\<close>, \<open>bullets\<close> and \<open>metadata\<close>, the last one
  with \<open>duration\<close>, \<open>model\<close> and \<open>processedAt\<close>; a response of \<open>server/server.js\<close> has the
  fields \<open>transcript\<close>, \<open>utterances\<close>, \<open>summary\<close> and \<open>bullets\<close> only.
\<close>

theorem record_fields:
  "(normalize_api rt now stamp fileName raw = Some d \<longrightarrow>
      json_keys d = [''id'', ''fileName'', ''transcript'', ''utterances'', ''summary'',
                     ''bullets'', ''metadata'']
      \<and> json_keys (member d ''metadata'') = [''duration'', ''model'', ''processedAt''])
   \<and> (normalize_server rt raw = Some d' \<longrightarrow>
      json_keys d' = [''transcript'', ''utterances'', ''summary'', ''bullets''])"
  by (auto simp: normalize_api_eq normalize_server_eq json_keys_def or_else_defined
      split: option.splits)

theorem record_fields_witness:
  "normalize_api int_runtime 17 ''t'' ''a.mp3'' scenario1 = Some scenario1_record
   \<and> normalize_server int_runtime scenario1 = Some scenario1_body
   \<and> json_keys scenario1_record
       = [''id'', ''fileName'', ''transcript'', ''utterances'', ''summary'', ''bullets'', ''metadata'']
   \<and> json_keys (member scenario1_record ''metadata'') = [''duration'', ''model'', ''processedAt'']
   \<and> json_keys scenario1_body = [''transcript'', ''utterances'', ''summary'', ''bullets'']"
proof -
  have a: "normalize_api int_runtime 17 ''t'' ''a.mp3'' scenario1 = Some scenario1_record"
    by code_simp
  have b: "normalize_server int_runtime scenario1 = Some scenario1_body"
    by code_simp
  show ?thesis
    using record_fields [of int_runtime 17 "''t''" "''a.mp3''" scenario1
        scenario1_record scenario1_body] a b
    by simp
qed

text \<open>
  The response of \<open>server/server.js\<close> to the first scenario has four fields: no \<open>id\<close>,
  no \<open>fileName\<close>, no \<open>metadata\<close>.
\<close>

theorem server_fields_counterexample:
  "map_option json_keys (normalize_server int_runtime scenario1)
     = Some [''transcript'', ''utterances'', ''summary'', ''bullets'']
   \<and> map_option json_keys (normalize_server int_runtime scenario1)
     \<noteq> Some [''id'', ''fileName'', ''transcript'', ''utterances'', ''summary'', ''bullets'', ''metadata'']"
  by code_simp

text \<open>
  C7, as the code has it. In every record of \<open>api/index.js\<close>, \<open>metadata.duration\<close> is
  the top-level \<open>metadata.duration\<close> of the payload when that value is truthy, so when
  it is a number other than zero, and 0 when it is absent or falsy.
\<close>

theorem duration_or_zero:
  assumes "normalize_api rt now stamp fileName raw = Some d"
  shows "member (member d ''metadata'') ''duration''
           = (if truthy rt (duration_value raw) then duration_value raw else JNum (num_zero rt))
       \<and> (\<forall>n. duration_value raw = JNum n \<and> num_truthy rt n
             \<longrightarrow> member (member d ''metadata'') ''duration'' = JNum n)
       \<and> (duration_value raw = JUndef
             \<longrightarrow> member (member d ''metadata'') ''duration'' = JNum (num_zero rt))"
  using assms
  by (auto simp: normalize_api_eq or_else_def split: option.splits)

theorem duration_or_zero_witness:
  "normalize_api int_runtime 17 ''t'' ''a.mp3'' (payload_lasting (JNum 12))
     = Some (fallback_record ''17'' ''a.mp3'' (JStr ''hi'') (JStr ''Summary not available.'') (JNum 12))
   \<and> duration_value (payload_lasting (JNum 12)) = JNum 12
   \<and> member (member (fallback_record ''17'' ''a.mp3'' (JStr ''hi'') (JStr ''Summary not available.'') (JNum 12))
         ''metadata'') ''duration'' = JNum 12"
proof -
  have a: "normalize_api int_runtime 17 ''t'' ''a.mp3'' (payload_lasting (JNum 12))
     = Some (fallback_record ''17'' ''a.mp3'' (JStr ''hi'') (JStr ''Summary not available.'') (JNum 12))"
    by code_simp
  have v: "duration_value (payload_lasting (JNum 12)) = JNum 12"
    by code_simp
  have t: "truthy int_runtime (JNum 12)"
    by code_simp
  show ?thesis
    using duration_or_zero [OF a] a v t by simp
qed

text \<open>
  A duration that is not a number, the string \<open>12\<close>, is truthy and goes into the record
  as it is.
\<close>

theorem duration_text_counterexample:
  "duration_value (payload_lasting (JStr ''12'')) = JStr ''12''
   \<and> normalize_api int_runtime 17 ''t'' ''a.mp3'' (payload_lasting (JStr ''12''))
     = Some (JObj [(''id'', JStr ''17''), (''fileName'', JStr ''a.mp3''),
           (''transcript'', JStr ''[Speaker]: hi''),
           (''utterances'', JArr [JObj [(''speaker'', JStr ''Speaker''), (''text'', JStr ''hi'')]]),
           (''summary'', JStr ''Summary not available.''),
           (''bullets'', JStr ''Key insights are included in the summary above.''),
           (''metadata'', JObj [(''duration'', JStr ''12''), (''model'', JStr ''nova-2''),
                                (''processedAt'', JStr ''t'')])])"
  by code_simp

text \<open>
  C8, as the code has it. Two records of \<open>api/index.js\<close> have the same \<open>id\<close> exactly when
  they were made at the same reading of the clock, and so have two records made by
  \<open>handleUpload\<close>: records made at different readings have different identifiers.
\<close>

theorem ids_differ_with_clock:
  "(normalize_api rt now1 stamp1 fileName1 raw1 = Some d1
      \<and> normalize_api rt now2 stamp2 fileName2 raw2 = Some d2
      \<longrightarrow> (member d1 ''id'' = member d2 ''id'') = (now1 = now2))
   \<and> ((member (newResult now1 name1 data1) ''id'' = member (newResult now2 name2 data2) ''id'')
        = (now1 = now2))"
  by (auto simp: normalize_api_eq newResult_id split: option.splits dest: dec_nat_inj)

theorem ids_differ_with_clock_witness:
  "normalize_api int_runtime 5 ''t'' ''a.mp3'' (payload_of (JObj [(''transcript'', JStr ''hi'')]))
     = Some (fallback_record ''5'' ''a.mp3'' (JStr ''hi'') (JStr ''Summary not available.'') (JNum 0))
   \<and> normalize_api int_runtime 6 ''t'' ''a.mp3'' (payload_of (JObj [(''transcript'', JStr ''hi'')]))
     = Some (fallback_record ''6'' ''a.mp3'' (JStr ''hi'') (JStr ''Summary not available.'') (JNum 0))
   \<and> member (fallback_record ''5'' ''a.mp3'' (JStr ''hi'') (JStr ''Summary not available.'') (JNum 0)) ''id''
     \<noteq> member (fallback_record ''6'' ''a.mp3'' (JStr ''hi'') (JStr ''Summary not available.'') (JNum 0)) ''id''"
proof -
  let ?p = "payload_of (JObj [(''transcript'', JStr ''hi'')])"
  have a: "normalize_api int_runtime 5 ''t'' ''a.mp3'' ?p
     = Some (fallback_record ''5'' ''a.mp3'' (JStr ''hi'') (JStr ''Summary not available.'') (JNum 0))"
    by code_simp
  have b: "normalize_api int_runtime 6 ''t'' ''a.mp3'' ?p
     = Some (fallback_record ''6'' ''a.mp3'' (JStr ''hi'') (JStr ''Summary not available.'') (JNum 0))"
    by code_simp
  show ?thesis
    using ids_differ_with_clock [of int_runtime 5 "''t''" "''a.mp3''" ?p
        "fallback_record ''5'' ''a.mp3'' (JStr ''hi'') (JStr ''Summary not available.'') (JNum 0)"
        6 "''t''" "''a.mp3''" ?p
        "fallback_record ''6'' ''a.mp3'' (JStr ''hi'') (JStr ''Summary not available.'') (JNum 0)"
        "''a.mp3''" "JNull :: int jv" "''a.mp3''" "JNull :: int jv"] a b
    by simp
qed

text \<open>
  Two uploads handled at the same reading of the clock give two different records
  with the same \<open>id\<close>.
\<close>

theorem same_clock_same_id_counterexample:
  "normalize_api int_runtime 5 ''t'' ''a.mp3'' (payload_of (JObj [(''transcript'', JStr ''hi'')]))
     = Some (fallback_record ''5'' ''a.mp3'' (JStr ''hi'') (JStr ''Summary not available.'') (JNum 0))
   \<and> normalize_api int_runtime 5 ''t'' ''b.mp3'' (payload_of (JObj [(''transcript'', JStr ''hi'')]))
     = Some (fallback_record ''5'' ''b.mp3'' (JStr ''hi'') (JStr ''Summary not available.'') (JNum 0))
   \<and> fallback_record ''5'' ''a.mp3'' (JStr ''hi'') (JStr ''Summary not available.'') (JNum 0)
     \<noteq> fallback_record ''5'' ''b.mp3'' (JStr ''hi'') (JStr ''Summary not available.'') (JNum 0)
   \<and> member (fallback_record ''5'' ''a.mp3'' (JStr ''hi'') (JStr ''Summary not available.'') (JNum 0)) ''id''
     = member (fallback_record ''5'' ''b.mp3'' (JStr ''hi'') (JStr ''Summary not available.'') (JNum 0)) ''id''"
  by code_simp

text \<open>
  C9. Two runs of the normalization on the same payload and file name, at any two
  readings of the clock, both throw or both give a record, and the two records agree
  on the file name, the transcript, the utterances, the summary, the bullets, the
  duration and the model.
\<close>

theorem normalize_api_clock_free:
  "map_option clock_free_fields (normalize_api rt now1 stamp1 fileName raw)
   = map_option clock_free_fields (normalize_api rt now2 stamp2 fileName raw)"
  by (simp add: normalize_api_def clock_free_fields_def split: Option.bind_split)

theorem normalize_api_clock_free_witness:
  "map_option clock_free_fields
     (normalize_api int_runtime 1 ''t1'' ''a.mp3'' (payload_of (JObj [(''transcript'', JStr ''hi'')])))
   = map_option clock_free_fields
     (normalize_api int_runtime 2 ''t2'' ''a.mp3'' (payload_of (JObj [(''transcript'', JStr ''hi'')])))
   \<and> normalize_api int_runtime 1 ''t1'' ''a.mp3'' (payload_of (JObj [(''transcript'', JStr ''hi'')]))
     \<noteq> None"
proof -
  have "normalize_api int_runtime 1 ''t1'' ''a.mp3'' (payload_of (JObj [(''transcript'', JStr ''hi'')]))
     \<noteq> None"
    by code_simp
  then show ?thesis
    using normalize_api_clock_free [of int_runtime 1 "''t1''" "''a.mp3''"
        "payload_of (JObj [(''transcript'', JStr ''hi'')])" 2 "''t2''"]
    by simp
qed

text \<open>
  C10. In the interface variant that caps its history, after a successful upload the
  history holds at most 20 records, the new record is the first one, and the others
  are the 19 first records of the history before: what lies beyond is dropped.
\<close>

theorem history_capped_at_20:
  assumes "chosen_file st = Some name"
  shows "length (history (handleUpload rt now (Response data) st)) \<le> 20
       \<and> history (handleUpload rt now (Response data) st)
           = newResult now name data # take 19 (history st)"
  using assms by (simp add: handleUpload_def length_push_history push_history_eq)

theorem history_capped_at_20_witness:
  "chosen_file \<lparr>chosen_file = Some ''a.mp3'', loading = False, error = JNull, result = JNull,
       history = replicate 25 (JNum 1), activeTab = ''summary''\<rparr> = Some ''a.mp3''
   \<and> length (history (handleUpload int_runtime 7 (Response (JObj []))
        \<lparr>chosen_file = Some ''a.mp3'', loading = False, error = JNull, result = JNull,
         history = replicate 25 (JNum 1), activeTab = ''summary''\<rparr>)) \<le> 20
   \<and> history (handleUpload int_runtime 7 (Response (JObj []))
        \<lparr>chosen_file = Some ''a.mp3'', loading = False, error = JNull, result = JNull,
         history = replicate 25 (JNum 1), activeTab = ''summary''\<rparr>)
      = newResult 7 ''a.mp3'' (JObj []) # replicate 19 (JNum 1)"
  using history_capped_at_20 [of "\<lparr>chosen_file = Some ''a.mp3'', loading = False, error = JNull,
       result = JNull, history = replicate 25 (JNum 1), activeTab = ''summary''\<rparr>"
       "''a.mp3''" int_runtime 7 "JObj []"]
  by simp

end
